theory Spec2Isabelle
  imports Complex_Main "HOL-Library.AList"
begin

section \<open>Python values, exceptions and outcomes\<close>

text \<open>
  The exceptions of events.py (lines 29-36) and the built-in exceptions its code
  can run into. \<open>win32_error\<close> stands for the error the platform binding raises on a
  handle that is not open.
\<close>

datatype exn =
    x_unimplemented
  | x_event_timeout
  | x_event_abandoned
  | TypeError
  | AttributeError
  | KeyError
  | win32_error

text \<open>
  A call returns a value, raises, or blocks for ever: a wait without time limit on an
  event that nothing else signals does not come back.
\<close>

datatype 'a outcome = Returns 'a | Raises exn | Blocks

text \<open>
  The values a caller passes as \<open>timeout_secs\<close>: \<open>None\<close>, a whole number of seconds,
  or a fractional one. A fractional number is taken as the number it stands for; the
  rounding of the machine's arithmetic is not part of the model.
\<close>

datatype pyval = PyNone | PyInt int | PyFloat real

text \<open>The comparison \<open>v == i\<close> with a whole number: \<open>None\<close> equals none.\<close>

definition py_eq :: "pyval \<Rightarrow> int \<Rightarrow> bool" where
  "py_eq v i = (case v of PyNone \<Rightarrow> False | PyInt n \<Rightarrow> n = i | PyFloat x \<Rightarrow> x = of_int i)"

text \<open>The product \<open>i * v\<close> with a whole number: \<open>None\<close> cannot be multiplied.\<close>

definition py_times :: "int \<Rightarrow> pyval \<Rightarrow> pyval outcome" where
  "py_times i v =
     (case v of
        PyNone \<Rightarrow> Raises TypeError
      | PyInt n \<Rightarrow> Returns (PyInt (i * n))
      | PyFloat x \<Rightarrow> Returns (PyFloat (of_int i * x)))"

section \<open>The abstract interface (class \<open>_Event\<close>, lines 38-66)\<close>

text \<open>
  Every method of the base class raises \<open>x_unimplemented\<close>. Lines 65-66 bind the
  names \<open>fire\<close> and \<open>stop\<close> to the functions of the base class itself, so the two
  aliases stay the base-class functions in every subclass.
\<close>

definition Event_set :: "'s \<Rightarrow> 's \<times> unit outcome" where
  "Event_set s = (s, Raises x_unimplemented)"

definition Event_reset :: "'s \<Rightarrow> 's \<times> unit outcome" where
  "Event_reset s = (s, Raises x_unimplemented)"

definition Event_fire :: "'s \<Rightarrow> 's \<times> unit outcome" where
  "Event_fire = Event_set"

definition Event_stop :: "'s \<Rightarrow> 's \<times> unit outcome" where
  "Event_stop = Event_reset"

section \<open>The in-process variant (class \<open>PythonEvent\<close>, lines 68-100)\<close>

text \<open>
  Modelled from the spec: \<open>threading.Event\<close>, Python's library class, is not part of
  the sources; it is "a simple flag + condition/wait mechanism". The wrapper owns one
  such object, so the field \<open>event\<close> holds its flag.
\<close>

record PythonEvent =
  name :: string
  event :: bool

text \<open>
  Modelled from the spec: what \<open>threading.Event.wait\<close> hands back is the library's
  business and differs between releases: up to Python 2.6 the method has no return
  statement and yields \<open>None\<close> in every case; from Python 2.7 on it yields the flag.
  Both libraries are modelled. In either, the call comes back at once on a set flag, at
  the end of the timeout on a clear flag, and never on a clear flag without timeout.
\<close>

datatype threading = returns_None | returns_flag

definition wait_value :: "threading \<Rightarrow> bool \<Rightarrow> bool option" where
  "wait_value lib flag = (case lib of returns_None \<Rightarrow> None | returns_flag \<Rightarrow> Some flag)"

definition threading_wait :: "threading \<Rightarrow> bool \<Rightarrow> pyval \<Rightarrow> bool option outcome" where
  "threading_wait lib flag timeout =
     (if flag then Returns (wait_value lib True)
      else case timeout of
             PyNone \<Rightarrow> Blocks
           | PyInt n \<Rightarrow> Returns (wait_value lib False)
           | PyFloat x \<Rightarrow> Returns (wait_value lib False))"

definition PythonEvent_init :: "string \<Rightarrow> int \<Rightarrow> int \<Rightarrow> PythonEvent" where
  "PythonEvent_init nm initial_state manual_reset =
     (if initial_state \<noteq> 0 then \<lparr>name = nm, event = True\<rparr>
      else \<lparr>name = nm, event = False\<rparr>)"

definition PythonEvent_set :: "PythonEvent \<Rightarrow> PythonEvent \<times> unit outcome" where
  "PythonEvent_set e = (e\<lparr>event := True\<rparr>, Returns ())"

definition PythonEvent_reset :: "PythonEvent \<Rightarrow> PythonEvent \<times> unit outcome" where
  "PythonEvent_reset e = (e\<lparr>event := False\<rparr>, Returns ())"

definition PythonEvent_pulse :: "PythonEvent \<Rightarrow> PythonEvent \<times> unit outcome" where
  "PythonEvent_pulse e = ((e\<lparr>event := True\<rparr>)\<lparr>event := False\<rparr>, Returns ())"

definition PythonEvent_is_set :: "PythonEvent \<Rightarrow> PythonEvent \<times> bool outcome" where
  "PythonEvent_is_set e = (e, Returns (event e))"

definition PythonEvent_wait :: "threading \<Rightarrow> PythonEvent \<Rightarrow> pyval \<Rightarrow> PythonEvent \<times> unit outcome" where
  "PythonEvent_wait lib e timeout_secs =
     (case threading_wait lib (event e) timeout_secs of
        Returns r \<Rightarrow> if r = None then (e, Raises x_event_timeout) else (e, Returns ())
      | Raises x \<Rightarrow> (e, Raises x)
      | Blocks \<Rightarrow> (e, Blocks))"

text \<open>A caller's operations on one in-process event, and what a sequence of them shows.\<close>

datatype op = Set | Reset | Pulse | Is_set | Wait pyval

datatype obs = Unit "unit outcome" | Bool "bool outcome"

fun PythonEvent_do :: "threading \<Rightarrow> PythonEvent \<Rightarrow> op \<Rightarrow> PythonEvent \<times> obs" where
  "PythonEvent_do lib e Set = (case PythonEvent_set e of (e', r) \<Rightarrow> (e', Unit r))"
| "PythonEvent_do lib e Reset = (case PythonEvent_reset e of (e', r) \<Rightarrow> (e', Unit r))"
| "PythonEvent_do lib e Pulse = (case PythonEvent_pulse e of (e', r) \<Rightarrow> (e', Unit r))"
| "PythonEvent_do lib e Is_set = (case PythonEvent_is_set e of (e', r) \<Rightarrow> (e', Bool r))"
| "PythonEvent_do lib e (Wait t) = (case PythonEvent_wait lib e t of (e', r) \<Rightarrow> (e', Unit r))"

text \<open>
  A sequence stops at the first call that raises or blocks, as the calling code would.
\<close>

fun completes :: "obs \<Rightarrow> bool" where
  "completes (Unit (Returns _)) = True"
| "completes (Bool (Returns _)) = True"
| "completes _ = False"

fun PythonEvent_run :: "threading \<Rightarrow> PythonEvent \<Rightarrow> op list \<Rightarrow> obs list" where
  "PythonEvent_run lib e [] = []"
| "PythonEvent_run lib e (c # cs) =
     (case PythonEvent_do lib e c of
        (e', r) \<Rightarrow> if completes r then r # PythonEvent_run lib e' cs else [r])"

section \<open>The platform's named events\<close>

text \<open>
  Modelled from the spec: the binding \<open>win32event\<close> and the kernel behind it are not
  part of the sources. An object of the kernel is "signaled" or not and "manual-reset" or
  not; \<open>abandoned\<close> says that the platform reports the object abandoned to whoever
  waits on it ("the backend reports the named object's prior owner terminated without
  releasing it"). Objects live in a namespace of names; a handle is an index into the
  table of open handles, and several handles may be open on one name.
\<close>

record kobj =
  signaled :: bool
  manual :: bool
  abandoned :: bool

type_synonym HANDLE = nat

record kernel =
  objects :: "string \<rightharpoonup> kobj"
  handles :: "string list"

definition boot :: kernel where
  "boot = \<lparr>objects = Map.empty, handles = []\<rparr>"

text \<open>The constants of the binding, with the values of the platform's headers.\<close>

definition INFINITE :: int where "INFINITE = 4294967295"
definition WAIT_OBJECT_0 :: int where "WAIT_OBJECT_0 = 0"
definition WAIT_ABANDONED :: int where "WAIT_ABANDONED = 128"
definition WAIT_TIMEOUT :: int where "WAIT_TIMEOUT = 258"

definition obj_of :: "kernel \<Rightarrow> HANDLE \<Rightarrow> kobj option" where
  "obj_of k h = (if h < length (handles k) then objects k (handles k ! h) else None)"

definition put_obj :: "kernel \<Rightarrow> HANDLE \<Rightarrow> kobj \<Rightarrow> kernel" where
  "put_obj k h ob = k\<lparr>objects := (objects k)(handles k ! h \<mapsto> ob)\<rparr>"

text \<open>
  Modelled from the spec: \<open>CreateEvent\<close>. "If the name already denotes a live object,
  attach to it and discard the supplied initial_state/manual_reset"; otherwise the
  object is created with them. Either way the caller gets a new handle.
\<close>

definition CreateEvent :: "kernel \<Rightarrow> int \<Rightarrow> int \<Rightarrow> string \<Rightarrow> kernel \<times> HANDLE" where
  "CreateEvent k bManualReset bInitialState nm =
     (case objects k nm of
        Some ob \<Rightarrow> (k\<lparr>handles := handles k @ [nm]\<rparr>, length (handles k))
      | None \<Rightarrow>
          (k\<lparr>objects := (objects k)(nm \<mapsto>
                \<lparr>signaled = (bInitialState \<noteq> 0), manual = (bManualReset \<noteq> 0),
                 abandoned = False\<rparr>),
             handles := handles k @ [nm]\<rparr>,
           length (handles k)))"

text \<open>Modelled from the spec: \<open>SetEvent\<close>, "transitions state to signaled".\<close>

definition SetEvent :: "kernel \<Rightarrow> HANDLE \<Rightarrow> kernel \<times> unit outcome" where
  "SetEvent k h =
     (case obj_of k h of
        None \<Rightarrow> (k, Raises win32_error)
      | Some ob \<Rightarrow> (put_obj k h (ob\<lparr>signaled := True\<rparr>), Returns ()))"

text \<open>
  Modelled from the spec: \<open>PulseEvent\<close>, "signaled then immediately not-signaled".
  The kernel of this model keeps no list of parked waiters, so what is modelled is the
  state the call leaves behind; the release of "any currently-blocked waiters" is not.
\<close>

definition PulseEvent :: "kernel \<Rightarrow> HANDLE \<Rightarrow> kernel \<times> unit outcome" where
  "PulseEvent k h =
     (case obj_of k h of
        None \<Rightarrow> (k, Raises win32_error)
      | Some ob \<Rightarrow> (put_obj k h (ob\<lparr>signaled := False\<rparr>), Returns ()))"

text \<open>
  Modelled from the spec: \<open>WaitForSingleObject\<close>, with the time limit in milliseconds,
  a number. A signaled object satisfies the wait at once, and an auto-reset object
  "additionally transitions signaled to not-signaled as a side effect of releasing" the
  waiter. On an object that is not signaled the wait times out, or never comes back when
  the limit is \<open>INFINITE\<close>.
\<close>

definition WaitForSingleObject :: "kernel \<Rightarrow> HANDLE \<Rightarrow> pyval \<Rightarrow> kernel \<times> int outcome" where
  "WaitForSingleObject k h ms =
     (if ms = PyNone then (k, Raises TypeError)
      else case obj_of k h of
        None \<Rightarrow> (k, Raises win32_error)
      | Some ob \<Rightarrow>
          if abandoned ob then (k, Returns WAIT_ABANDONED)
          else if signaled ob then
            (if manual ob then k else put_obj k h (ob\<lparr>signaled := False\<rparr>),
             Returns WAIT_OBJECT_0)
          else if py_eq ms INFINITE then (k, Blocks)
          else (k, Returns WAIT_TIMEOUT))"

section \<open>The named variant (class \<open>Win32Event\<close>, lines 107-184)\<close>

record Win32Event =
  name :: string
  event :: HANDLE

definition Win32Event_init :: "kernel \<Rightarrow> string \<Rightarrow> int \<Rightarrow> int \<Rightarrow> kernel \<times> Win32Event" where
  "Win32Event_init k nm initial_state manual_reset =
     (case CreateEvent k manual_reset initial_state nm of
        (k', h) \<Rightarrow> (k', \<lparr>name = nm, event = h\<rparr>))"

definition Win32Event_set :: "kernel \<Rightarrow> Win32Event \<Rightarrow> kernel \<times> unit outcome" where
  "Win32Event_set k e = SetEvent k (Win32Event.event e)"

text \<open>Line 160 calls \<open>SetEvent\<close>, as line 156 does.\<close>

definition Win32Event_reset :: "kernel \<Rightarrow> Win32Event \<Rightarrow> kernel \<times> unit outcome" where
  "Win32Event_reset k e = SetEvent k (Win32Event.event e)"

definition Win32Event_pulse :: "kernel \<Rightarrow> Win32Event \<Rightarrow> kernel \<times> unit outcome" where
  "Win32Event_pulse k e = PulseEvent k (Win32Event.event e)"

text \<open>
  Lines 176-179: the limit handed to the platform. A value equal to \<open>INFINITE\<close> is
  handed on as it is; any other is multiplied by 1000, which for \<open>None\<close> raises
  \<open>TypeError\<close>.
\<close>

definition wait_ms :: "pyval \<Rightarrow> pyval outcome" where
  "wait_ms timeout_secs =
     (if py_eq timeout_secs INFINITE then Returns timeout_secs
      else py_times 1000 timeout_secs)"

text \<open>Lines 181-184: what the wrapper makes of the platform's answer.\<close>

definition wait_result :: "int \<Rightarrow> unit outcome" where
  "wait_result result =
     (if result = WAIT_TIMEOUT then Raises x_event_timeout
      else if result = WAIT_ABANDONED then Raises x_event_abandoned
      else Returns ())"

definition Win32Event_wait :: "kernel \<Rightarrow> Win32Event \<Rightarrow> pyval \<Rightarrow> kernel \<times> unit outcome" where
  "Win32Event_wait k e timeout_secs =
     (case wait_ms timeout_secs of
        Raises x \<Rightarrow> (k, Raises x)
      | Blocks \<Rightarrow> (k, Blocks)
      | Returns ms \<Rightarrow>
          (case WaitForSingleObject k (Win32Event.event e) ms of
             (k', Returns result) \<Rightarrow> (k', wait_result result)
           | (k', Raises x) \<Rightarrow> (k', Raises x)
           | (k', Blocks) \<Rightarrow> (k', Blocks)))"

text \<open>The default of \<open>timeout_secs\<close> is \<open>win32event.INFINITE\<close> (line 174).\<close>

definition Win32Event_wait_default :: "kernel \<Rightarrow> Win32Event \<Rightarrow> kernel \<times> unit outcome" where
  "Win32Event_wait_default k e = Win32Event_wait k e (PyInt INFINITE)"

text \<open>Lines 166-172: only \<open>x_event_timeout\<close> is caught.\<close>

definition Win32Event_is_set :: "kernel \<Rightarrow> Win32Event \<Rightarrow> kernel \<times> int outcome" where
  "Win32Event_is_set k e =
     (case Win32Event_wait k e (PyInt 0) of
        (k', Returns u) \<Rightarrow> (k', Returns 1)
      | (k', Raises x) \<Rightarrow> if x = x_event_timeout then (k', Returns 0) else (k', Raises x)
      | (k', Blocks) \<Rightarrow> (k', Blocks))"

section \<open>The handler (class \<open>EventHandler\<close>, lines 188-223)\<close>

text \<open>
  Line 191 runs when the module is loaded: the default stop event is the named event
  \<open>__STOP_EVENT_HANDLER\<close>, built with the defaults \<open>initial_state=0\<close> and
  \<open>manual_reset=0\<close>.
\<close>

definition load_module :: "kernel \<Rightarrow> kernel \<times> Win32Event" where
  "load_module k = Win32Event_init k ''__STOP_EVENT_HANDLER'' 0 0"

text \<open>
  The two functions the dictionary \<open>self.events\<close> can hold: the caller's \<open>action\<close>
  and the bound method \<open>self._stop\<close>. The caller's function is opaque; the handler
  counts its calls in \<open>calls\<close>, and it is taken to return. \<open>finished\<close> is
  \<open>None\<close> as long as the attribute has not been assigned.
\<close>

datatype callback = action | stop_callback

record EventHandler =
  stop_event :: Win32Event
  events :: "(HANDLE \<times> callback) list"
  finished :: "int option"
  started :: bool
  calls :: nat

text \<open>
  Lines 197-206. A dictionary is an association list: assigning to a key that is
  present replaces its value. \<open>self.start ()\<close> hands \<open>run\<close> to a new thread.
\<close>

definition EventHandler_init :: "Win32Event \<Rightarrow> Win32Event \<Rightarrow> EventHandler" where
  "EventHandler_init action_ev stop_ev =
     \<lparr>stop_event = stop_ev,
      events = AList.update (Win32Event.event stop_ev) stop_callback
                 (AList.update (Win32Event.event action_ev) action []),
      finished = None,
      started = True,
      calls = 0\<rparr>"

text \<open>
  The default of \<open>stop_event\<close> (line 197) is the module's \<open>STOP_EVENT\<close>, the one
  object built when the module was loaded.
\<close>

definition EventHandler_init_default :: "Win32Event \<Rightarrow> Win32Event \<Rightarrow> EventHandler" where
  "EventHandler_init_default STOP_EVENT action_ev = EventHandler_init action_ev STOP_EVENT"

text \<open>Lines 208-210: \<open>fire\<close> is the alias of line 65.\<close>

definition EventHandler_stop :: "kernel \<Rightarrow> EventHandler \<Rightarrow> (kernel \<times> EventHandler) \<times> unit outcome" where
  "EventHandler_stop k h = Event_fire (k, h)"

text \<open>Lines 212-213.\<close>

definition EventHandler__stop :: "EventHandler \<Rightarrow> EventHandler" where
  "EventHandler__stop h = h\<lparr>finished := Some 1\<rparr>"

text \<open>
  Modelled from the spec: \<open>WaitForMultipleObjects\<close> as line 221 calls it, waiting for
  any one object and without time limit: "block on a multi-object wait across all
  registered event identities, waking on whichever fires first". The answer is the
  position of the first object in the list that satisfies the wait, counted from
  \<open>WAIT_OBJECT_0\<close>, or from \<open>WAIT_ABANDONED\<close> for an abandoned object; an
  auto-reset object that satisfies the wait is reset.
\<close>

fun wait_any :: "kernel \<Rightarrow> HANDLE list \<Rightarrow> int \<Rightarrow> kernel \<times> int outcome" where
  "wait_any k [] i = (k, Blocks)"
| "wait_any k (h # hs) i =
     (case obj_of k h of
        None \<Rightarrow> (k, Raises win32_error)
      | Some ob \<Rightarrow>
          if abandoned ob then (k, Returns (WAIT_ABANDONED + i))
          else if signaled ob then
            (if manual ob then k else put_obj k h (ob\<lparr>signaled := False\<rparr>),
             Returns (WAIT_OBJECT_0 + i))
          else wait_any k hs (i + 1))"

definition WaitForMultipleObjects :: "kernel \<Rightarrow> HANDLE list \<Rightarrow> kernel \<times> int outcome" where
  "WaitForMultipleObjects k hs =
     (if list_all (\<lambda>h. obj_of k h \<noteq> None) hs then wait_any k hs 0
      else (k, Raises win32_error))"

definition call :: "EventHandler \<Rightarrow> callback \<Rightarrow> EventHandler" where
  "call h c = (case c of action \<Rightarrow> h\<lparr>calls := calls h + 1\<rparr> | stop_callback \<Rightarrow> EventHandler__stop h)"

text \<open>
  Lines 221-223, one turn of the loop. The third component says which function was
  called, if any. \<open>keys ()\<close> is taken in the order of insertion; the language leaves
  the order open, and it matters only when several events are signaled at once.
\<close>

definition run_iter :: "kernel \<Rightarrow> EventHandler \<Rightarrow> kernel \<times> EventHandler \<times> callback option outcome" where
  "run_iter k h =
     (let evs = map fst (events h) in
      case WaitForMultipleObjects k evs of
        (k', Raises x) \<Rightarrow> (k', h, Raises x)
      | (k', Blocks) \<Rightarrow> (k', h, Blocks)
      | (k', Returns result) \<Rightarrow>
          if WAIT_OBJECT_0 \<le> result \<and> result \<le> WAIT_OBJECT_0 + int (length evs) - 1
          then (case map_of (events h) (evs ! nat (result - WAIT_OBJECT_0)) of
                  Some c \<Rightarrow> (k', call h c, Returns (Some c))
                | None \<Rightarrow> (k', h, Raises KeyError))
          else (k', h, Returns None))"

text \<open>
  Line 220, the loop, with fuel: the loop need not end (a manual-reset action event
  that stays signaled is served for ever). The answer \<open>None\<close> says that the fuel ran
  out; \<open>Some Blocks\<close> that the thread is parked in the wait with nothing signaled,
  from where it goes on as soon as another thread signals one of its events.
\<close>

fun run_loop :: "nat \<Rightarrow> kernel \<Rightarrow> EventHandler \<Rightarrow> kernel \<times> EventHandler \<times> unit outcome option" where
  "run_loop 0 k h = (k, h, None)"
| "run_loop (Suc n) k h =
     (case finished h of
        None \<Rightarrow> (k, h, Some (Raises AttributeError))
      | Some f \<Rightarrow>
          if f \<noteq> 0 then (k, h, Some (Returns ()))
          else (case run_iter k h of
                  (k', h', Returns c) \<Rightarrow> run_loop n k' h'
                | (k', h', Raises x) \<Rightarrow> (k', h', Some (Raises x))
                | (k', h', Blocks) \<Rightarrow> (k', h', Some Blocks)))"

text \<open>Lines 215-223: \<open>run\<close> assigns \<open>finished\<close> and enters the loop.\<close>

definition EventHandler_run :: "nat \<Rightarrow> kernel \<Rightarrow> EventHandler \<Rightarrow> kernel \<times> EventHandler \<times> unit outcome option" where
  "EventHandler_run n k h = run_loop n k (h\<lparr>finished := Some 0\<rparr>)"

text \<open>
  Several handler threads, each taken up where it stands and run until it ends or
  parks, in the order of the list.
\<close>

fun resume_all :: "nat \<Rightarrow> kernel \<Rightarrow> EventHandler list \<Rightarrow> kernel \<times> (int option \<times> unit outcome option) list" where
  "resume_all n k [] = (k, [])"
| "resume_all n k (h # hs) =
     (case run_loop n k h of
        (k', h', r) \<Rightarrow>
          (case resume_all n k' hs of (k'', rs) \<Rightarrow> (k'', (finished h', r) # rs)))"

text \<open>
  A small world for the examples: a fresh kernel on which the module has been loaded
  and one action event created.
\<close>

definition STOP_EVENT :: Win32Event where
  "STOP_EVENT = snd (load_module boot)"

definition action_event :: Win32Event where
  "action_event = snd (Win32Event_init (fst (load_module boot)) ''action'' 0 0)"

definition world :: kernel where
  "world = fst (Win32Event_init (fst (load_module boot)) ''action'' 0 0)"

section \<open>Facts about the platform model\<close>

lemmas w32_consts = INFINITE_def WAIT_OBJECT_0_def WAIT_ABANDONED_def WAIT_TIMEOUT_def

lemmas w32 = Win32Event_init_def CreateEvent_def Win32Event_set_def Win32Event_reset_def
  Win32Event_pulse_def Win32Event_wait_def Win32Event_is_set_def SetEvent_def PulseEvent_def
  WaitForSingleObject_def obj_of_def put_obj_def wait_ms_def py_eq_def py_times_def
  wait_result_def w32_consts

lemma obj_of_put: "h < length (handles k) \<Longrightarrow> obj_of (put_obj k h ob) h = Some ob"
  by (simp add: obj_of_def put_obj_def)

lemma obj_of_Some_lt: "obj_of k h = Some ob \<Longrightarrow> h < length (handles k)"
  by (simp add: obj_of_def split: if_splits)

text \<open>What \<open>is_set\<close> of the named variant does on an open handle, case by case.\<close>

lemma is_set_open:
  assumes "obj_of k (Win32Event.event e) = Some ob"
  shows "Win32Event_is_set k e =
     (if abandoned ob then (k, Raises x_event_abandoned)
      else if signaled ob then
        (if manual ob then k else put_obj k (Win32Event.event e) (ob\<lparr>signaled := False\<rparr>), Returns 1)
      else (k, Returns 0))"
  using assms
  by (simp add: Win32Event_is_set_def Win32Event_wait_def wait_ms_def py_eq_def py_times_def
      wait_result_def WaitForSingleObject_def w32_consts)

text \<open>The two ways a construction by name can go.\<close>

lemma init_fresh:
  "objects k nm = None \<Longrightarrow>
   Win32Event_init k nm i m =
     (k\<lparr>objects := (objects k)(nm \<mapsto> \<lparr>signaled = (i \<noteq> 0), manual = (m \<noteq> 0), abandoned = False\<rparr>),
        handles := handles k @ [nm]\<rparr>,
      \<lparr>Win32Event.name = nm, event = length (handles k)\<rparr>)"
  by (simp add: Win32Event_init_def CreateEvent_def)

lemma init_attach:
  "objects k nm = Some ob \<Longrightarrow>
   Win32Event_init k nm i m =
     (k\<lparr>handles := handles k @ [nm]\<rparr>, \<lparr>Win32Event.name = nm, event = length (handles k)\<rparr>)"
  by (simp add: Win32Event_init_def CreateEvent_def)

lemma init_obj_of:
  "obj_of (fst (Win32Event_init k nm i m)) (Win32Event.event (snd (Win32Event_init k nm i m)))
     = objects (fst (Win32Event_init k nm i m)) nm"
  by (cases "objects k nm") (simp_all add: init_fresh init_attach obj_of_def)

section \<open>Facts about the dispatch loop\<close>

lemma obj_of_put_other:
  "obj_of (put_obj k h ob) h' =
     (if h' < length (handles k) \<and> handles k ! h' = handles k ! h then Some ob else obj_of k h')"
  by (simp add: obj_of_def put_obj_def)

text \<open>One turn of the loop calls one of the two functions or leaves the handler alone.\<close>

lemma run_iter_cases:
  assumes "run_iter k h = (k', h', r)"
  shows "h' = h \<and> r \<noteq> Returns (Some stop_callback) \<or> (\<exists>c. r = Returns (Some c) \<and> h' = call h c)"
  using assms
  by (auto simp: run_iter_def Let_def split: prod.splits outcome.splits if_splits option.splits)

text \<open>
  One turn of the loop of a handler as the constructor builds it, while the stop event
  is not signaled: with two entries in the dictionary, with one (the action event and
  the stop event being one handle), and on a closed action handle.
\<close>

lemma run_iter_two:
  assumes "ha \<noteq> hs" "events h = [(ha, action), (hs, stop_callback)]"
    "obj_of k ha = Some oa" "obj_of k hs = Some ob" "\<not> signaled ob"
  shows "run_iter k h =
    (if abandoned oa then (k, h, Returns None)
     else if signaled oa then
       (if manual oa then k else put_obj k ha (oa\<lparr>signaled := False\<rparr>),
        call h action, Returns (Some action))
     else if abandoned ob then (k, h, Returns None)
     else (k, h, Blocks))"
  using assms
  by (simp add: run_iter_def WaitForMultipleObjects_def Let_def w32_consts)

lemma run_iter_one:
  assumes "events h = [(hs, stop_callback)]" "obj_of k hs = Some ob" "\<not> signaled ob"
  shows "run_iter k h = (if abandoned ob then (k, h, Returns None) else (k, h, Blocks))"
  using assms
  by (simp add: run_iter_def WaitForMultipleObjects_def Let_def w32_consts)

lemma run_iter_closed:
  assumes "events h = [(ha, action), (hs, stop_callback)]" "obj_of k ha = None"
  shows "run_iter k h = (k, h, Raises win32_error)"
  using assms
  by (simp add: run_iter_def WaitForMultipleObjects_def Let_def)

lemma run_iter_unfired:
  assumes ob: "obj_of k hs = Some ob" and ns: "\<not> signaled ob"
    and ev: "events h = AList.update hs stop_callback (AList.update ha action [])"
    and it: "run_iter k h = (k', h', r)"
  shows "finished h' = finished h \<and> events h' = events h
         \<and> (\<exists>ob'. obj_of k' hs = Some ob' \<and> \<not> signaled ob')"
proof (cases "ha = hs")
  case True
  then have "events h = [(hs, stop_callback)]"
    using ev by simp
  from run_iter_one [OF this ob ns] it ob ns show ?thesis
    by (auto split: if_splits)
next
  case False
  then have two: "events h = [(ha, action), (hs, stop_callback)]"
    using ev by simp
  have lt: "hs < length (handles k)"
    using ob by (rule obj_of_Some_lt)
  show ?thesis
  proof (cases "obj_of k ha")
    case None
    from run_iter_closed [OF two None] it ob ns show ?thesis
      by auto
  next
    case (Some oa)
    have keep: "\<exists>ob'. obj_of (put_obj k ha (oa\<lparr>signaled := False\<rparr>)) hs = Some ob' \<and> \<not> signaled ob'"
      using ob ns lt by (simp add: obj_of_put_other)
    from run_iter_two [OF False two Some ob ns] it ob ns keep show ?thesis
      by (auto simp: call_def split: if_splits)
  qed
qed

text \<open>As long as the stop event is not signaled, no number of turns sets the flag.\<close>

lemma run_loop_unfired:
  assumes "obj_of k hs = Some ob" "\<not> signaled ob"
    and "events h = AList.update hs stop_callback (AList.update ha action [])"
    and "finished h = Some 0"
  shows "finished (fst (snd (run_loop n k h))) = Some 0"
  using assms
proof (induction n arbitrary: k h ob)
  case 0
  then show ?case by simp
next
  case (Suc n)
  obtain k' h' r where it: "run_iter k h = (k', h', r)"
    by (cases "run_iter k h") auto
  from run_iter_unfired [OF Suc.prems(1,2,3) it]
  obtain ob' where inv: "finished h' = finished h" "events h' = events h"
      "obj_of k' hs = Some ob'" "\<not> signaled ob'"
    by blast
  show ?case
  proof (cases r)
    case (Returns c)
    have "finished (fst (snd (run_loop n k' h'))) = Some 0"
      using Suc.IH [OF inv(3,4)] inv(1,2) Suc.prems(3,4) by simp
    then show ?thesis
      using Suc.prems(4) it Returns by simp
  next
    case (Raises x)
    then show ?thesis
      using Suc.prems(4) it inv(1) by simp
  next
    case Blocks
    then show ?thesis
      using Suc.prems(4) it inv(1) by simp
  qed
qed

text \<open>Once assigned, the flag is 0 or 1.\<close>

lemma run_loop_flag:
  assumes "finished h = Some 0 \<or> finished h = Some 1"
  shows "finished (fst (snd (run_loop n k h))) = Some 0 \<or> finished (fst (snd (run_loop n k h))) = Some 1"
  using assms
proof (induction n arbitrary: k h)
  case 0
  then show ?case by simp
next
  case (Suc n)
  obtain k' h' r where it: "run_iter k h = (k', h', r)"
    by (cases "run_iter k h") auto
  have flag: "finished h' = Some 0 \<or> finished h' = Some 1"
  proof -
    from run_iter_cases [OF it] consider "h' = h" | c where "h' = call h c"
      by blast
    then show ?thesis
    proof cases
      case 1
      then show ?thesis using Suc.prems by simp
    next
      case 2
      then show ?thesis
        using Suc.prems by (cases c) (auto simp: call_def EventHandler__stop_def)
    qed
  qed
  show ?case
  proof (cases "finished h = Some 1")
    case True
    then show ?thesis by simp
  next
    case False
    then have zero: "finished h = Some 0"
      using Suc.prems by simp
    show ?thesis
    proof (cases r)
      case (Returns c)
      then show ?thesis
        using zero it Suc.IH [OF flag] by simp
    next
      case (Raises x)
      then show ?thesis
        using zero it flag by simp
    next
      case Blocks
      then show ?thesis
        using zero it flag by simp
    qed
  qed
qed

section \<open>Properties\<close>

text \<open>
  C1. \<open>reset()\<close> is to leave the event not-signaled, so that \<open>is_set()\<close> right after
  it answers false. The in-process variant does so. The named variant's \<open>reset\<close> is
  the same call as its \<open>set\<close>: on an event created not-signaled, \<open>reset()\<close> followed
  by \<open>is_set()\<close> answers 1.
\<close>

theorem Win32Event_reset_signals:
  "Win32Event_reset k e = Win32Event_set k e
   \<and> snd (Win32Event_is_set
            (fst (Win32Event_reset (fst (Win32Event_init boot ''e'' 0 0)) (snd (Win32Event_init boot ''e'' 0 0))))
            (snd (Win32Event_init boot ''e'' 0 0))) = Returns 1
   \<and> snd (PythonEvent_is_set (fst (PythonEvent_reset p))) = Returns False"
  by (simp add: w32 boot_def PythonEvent_is_set_def PythonEvent_reset_def)

text \<open>
  C2. \<open>wait\<close> is to raise \<open>x_event_timeout\<close> exactly when the timeout runs out on an
  event that is not signaled. The in-process variant raises when the library's
  \<open>wait\<close> hands back \<open>None\<close>: with the library that always does, no wait ever returns,
  not even on a signaled event; with the library that hands back the flag, no wait ever
  raises, not even on an event that stays clear.
\<close>

theorem PythonEvent_wait_misreports:
  "snd (PythonEvent_wait returns_None p t) \<noteq> Returns ()
   \<and> snd (PythonEvent_wait returns_flag p t) \<noteq> Raises x_event_timeout
   \<and> snd (PythonEvent_wait returns_None (PythonEvent_init ''e'' 1 0) (PyInt 0)) = Raises x_event_timeout
   \<and> snd (PythonEvent_wait returns_flag (PythonEvent_init ''e'' 0 0) (PyInt 0)) = Returns ()"
  by (simp add: PythonEvent_wait_def threading_wait_def wait_value_def PythonEvent_init_def
      split: pyval.splits)

text \<open>
  C3, as stated, fails: on a named event that the platform reports abandoned,
  \<open>is_set()\<close> raises \<open>x_event_abandoned\<close>.
\<close>

theorem is_set_abandoned_raises:
  "snd (Win32Event_is_set
          \<lparr>objects = [''e'' \<mapsto> \<lparr>signaled = False, manual = False, abandoned = True\<rparr>], handles = [''e'']\<rparr>
          \<lparr>Win32Event.name = ''e'', event = 0\<rparr>) = Raises x_event_abandoned"
  by (simp add: w32)

text \<open>
  C3, amended. \<open>is_set()\<close> of the in-process variant returns the flag and never raises.
  \<open>is_set()\<close> of the named variant, on an open handle, returns 1 on a signaled and 0 on a
  not-signaled event, and raises \<open>x_event_abandoned\<close> when the platform reports the
  object abandoned; it never raises \<open>x_event_timeout\<close>.
\<close>

theorem is_set_outcomes:
  "snd (PythonEvent_is_set p) = Returns (PythonEvent.event p)
   \<and> snd (Win32Event_is_set k' e') \<noteq> Raises x_event_timeout
   \<and> (obj_of k (Win32Event.event e) = Some ob \<longrightarrow>
        snd (Win32Event_is_set k e) =
          (if abandoned ob then Raises x_event_abandoned
           else if signaled ob then Returns 1 else Returns 0))"
proof -
  have "snd (Win32Event_is_set k' e') \<noteq> Raises x_event_timeout"
    by (simp add: Win32Event_is_set_def split: prod.splits outcome.splits)
  then show ?thesis
    by (simp add: is_set_open PythonEvent_is_set_def)
qed

theorem is_set_outcomes_witness:
  "obj_of (fst (Win32Event_init boot ''e'' 1 0)) (Win32Event.event (snd (Win32Event_init boot ''e'' 1 0)))
     = Some \<lparr>signaled = True, manual = False, abandoned = False\<rparr>
   \<and> snd (Win32Event_is_set (fst (Win32Event_init boot ''e'' 1 0)) (snd (Win32Event_init boot ''e'' 1 0)))
       = Returns 1"
proof -
  have h: "obj_of (fst (Win32Event_init boot ''e'' 1 0)) (Win32Event.event (snd (Win32Event_init boot ''e'' 1 0)))
     = Some \<lparr>signaled = True, manual = False, abandoned = False\<rparr>"
    by (simp add: Win32Event_init_def CreateEvent_def obj_of_def boot_def)
  show ?thesis
    using h is_set_outcomes [where k = "fst (Win32Event_init boot ''e'' 1 0)"
        and e = "snd (Win32Event_init boot ''e'' 1 0)"
        and ob = "\<lparr>signaled = True, manual = False, abandoned = False\<rparr>"]
    by simp
qed

text \<open>
  C4. \<open>is_set()\<close> is to leave the event as it found it. The in-process variant does.
  The named variant asks by a wait of no duration, which releases on a signaled
  auto-reset event as any wait does: on an event created signaled and auto-reset,
  \<open>is_set()\<close> answers 1 and leaves the kernel as if the event had been created
  not-signaled, and a second \<open>is_set()\<close> answers 0.
\<close>

theorem Win32Event_is_set_consumes:
  "fst (PythonEvent_is_set p) = p
   \<and> obj_of (fst (Win32Event_init boot ''e'' 1 0)) (Win32Event.event (snd (Win32Event_init boot ''e'' 1 0)))
       = Some \<lparr>signaled = True, manual = False, abandoned = False\<rparr>
   \<and> snd (Win32Event_is_set (fst (Win32Event_init boot ''e'' 1 0)) (snd (Win32Event_init boot ''e'' 1 0)))
       = Returns 1
   \<and> obj_of (fst (Win32Event_is_set (fst (Win32Event_init boot ''e'' 1 0)) (snd (Win32Event_init boot ''e'' 1 0))))
        (Win32Event.event (snd (Win32Event_init boot ''e'' 1 0)))
       = Some \<lparr>signaled = False, manual = False, abandoned = False\<rparr>
   \<and> snd (Win32Event_is_set
            (fst (Win32Event_is_set (fst (Win32Event_init boot ''e'' 1 0)) (snd (Win32Event_init boot ''e'' 1 0))))
            (snd (Win32Event_init boot ''e'' 1 0)))
       = Returns 0"
  by (simp add: w32 boot_def PythonEvent_is_set_def)

text \<open>
  C5. Handlers built without a stop event share the module's one default stop event,
  and firing it once is to stop them all. The default stop event is created auto-reset,
  so one firing releases one waiter: of two handlers parked on it, whichever is taken up
  first ends with \<open>finished = 1\<close>, and the other stays parked with \<open>finished = 0\<close>.
\<close>

theorem default_stop_event_stops_one:
  "stop_event (EventHandler_init_default STOP a1) = stop_event (EventHandler_init_default STOP a2)
   \<and> (case Win32Event_init (fst (load_module boot)) ''a1'' 0 0 of (k2, a1) \<Rightarrow>
       case Win32Event_init k2 ''a2'' 0 0 of (k3, a2) \<Rightarrow>
       case EventHandler_run (Suc n) k3 (EventHandler_init_default STOP_EVENT a1) of (k4, h1, r1) \<Rightarrow>
       case EventHandler_run (Suc n) k4 (EventHandler_init_default STOP_EVENT a2) of (k5, h2, r2) \<Rightarrow>
       case Win32Event_set k5 STOP_EVENT of (k6, r) \<Rightarrow>
         obj_of k3 (Win32Event.event STOP_EVENT) = Some \<lparr>signaled = False, manual = False, abandoned = False\<rparr>
         \<and> r1 = Some Blocks \<and> r2 = Some Blocks \<and> r = Returns ()
         \<and> snd (resume_all (Suc (Suc n)) k6 [h1, h2]) = [(Some 1, Some (Returns ())), (Some 0, Some Blocks)]
         \<and> snd (resume_all (Suc (Suc n)) k6 [h2, h1]) = [(Some 1, Some (Returns ())), (Some 0, Some Blocks)])"
  by (simp add: STOP_EVENT_def load_module_def EventHandler_init_default_def EventHandler_init_def
      EventHandler_run_def run_iter_def WaitForMultipleObjects_def call_def EventHandler__stop_def
      w32 boot_def)

text \<open>
  C6. The creator of a name decides: a construction under a name that is not in use
  creates the object with the caller's initial state and manual-reset flag; a
  construction under a name in use leaves every object as it is and hands back a
  handle on the existing one, whatever the caller asked for. So after a first
  construction with \<open>initial_state=1\<close> and a second, under the same name, with
  \<open>initial_state=0\<close>, \<open>is_set()\<close> on the second handle answers 1.
\<close>

theorem first_creator_wins:
  "(objects k nm = None \<longrightarrow>
      obj_of (fst (Win32Event_init k nm i1 m1)) (Win32Event.event (snd (Win32Event_init k nm i1 m1)))
        = Some \<lparr>signaled = (i1 \<noteq> 0), manual = (m1 \<noteq> 0), abandoned = False\<rparr>
      \<and> snd (Win32Event_is_set
               (fst (Win32Event_init (fst (Win32Event_init k nm 1 m1)) nm 0 m2))
               (snd (Win32Event_init (fst (Win32Event_init k nm 1 m1)) nm 0 m2))) = Returns 1)
   \<and> (objects k' nm = Some ob \<longrightarrow>
      objects (fst (Win32Event_init k' nm i2 m2)) = objects k'
      \<and> obj_of (fst (Win32Event_init k' nm i2 m2)) (Win32Event.event (snd (Win32Event_init k' nm i2 m2)))
          = Some ob)"
proof -
  have later: "objects (fst (Win32Event_init k' nm i2 m2)) = objects k'
      \<and> obj_of (fst (Win32Event_init k' nm i2 m2)) (Win32Event.event (snd (Win32Event_init k' nm i2 m2)))
          = Some ob"
    if "objects k' nm = Some ob" for k' ob i2 m2
    using that by (simp add: init_obj_of) (simp add: init_attach)
  have first: "obj_of (fst (Win32Event_init k nm i m)) (Win32Event.event (snd (Win32Event_init k nm i m)))
        = Some \<lparr>signaled = (i \<noteq> 0), manual = (m \<noteq> 0), abandoned = False\<rparr>"
    if "objects k nm = None" for i m
    using that by (simp add: init_obj_of) (simp add: init_fresh)
  have scenario: "snd (Win32Event_is_set
               (fst (Win32Event_init (fst (Win32Event_init k nm 1 m1)) nm 0 m2))
               (snd (Win32Event_init (fst (Win32Event_init k nm 1 m1)) nm 0 m2))) = Returns 1"
    if fresh: "objects k nm = None"
  proof -
    let ?k1 = "fst (Win32Event_init k nm 1 m1)"
    let ?ob = "\<lparr>signaled = True, manual = (m1 \<noteq> 0), abandoned = False\<rparr>"
    have "objects ?k1 nm = Some ?ob"
      using first [OF fresh, of 1 m1] by (simp add: init_obj_of)
    then have "obj_of (fst (Win32Event_init ?k1 nm 0 m2)) (Win32Event.event (snd (Win32Event_init ?k1 nm 0 m2)))
        = Some ?ob"
      using later by blast
    then show ?thesis
      by (simp add: is_set_open)
  qed
  from later first scenario show ?thesis by blast
qed

theorem first_creator_wins_witness:
  "objects boot ''e'' = None
   \<and> snd (Win32Event_is_set
            (fst (Win32Event_init (fst (Win32Event_init boot ''e'' 1 1)) ''e'' 0 0))
            (snd (Win32Event_init (fst (Win32Event_init boot ''e'' 1 1)) ''e'' 0 0))) = Returns 1
   \<and> objects (fst (Win32Event_init boot ''e'' 1 1)) ''e''
        = Some \<lparr>signaled = True, manual = True, abandoned = False\<rparr>
   \<and> objects (fst (Win32Event_init (fst (Win32Event_init boot ''e'' 1 1)) ''e'' 0 0))
        = objects (fst (Win32Event_init boot ''e'' 1 1))"
proof -
  have fresh: "objects boot ''e'' = None"
    by (simp add: boot_def)
  have there: "objects (fst (Win32Event_init boot ''e'' 1 1)) ''e''
        = Some \<lparr>signaled = True, manual = True, abandoned = False\<rparr>"
    by (simp add: Win32Event_init_def CreateEvent_def boot_def)
  show ?thesis
    using fresh there
      first_creator_wins [where k = boot and nm = "''e''" and ?i1.0 = 1 and ?m1.0 = 1
            and ?m2.0 = 0 and ?i2.0 = 0
            and k' = "fst (Win32Event_init boot ''e'' 1 1)"
            and ob = "\<lparr>signaled = True, manual = True, abandoned = False\<rparr>"]
    by simp
qed

text \<open>
  C7. The flag \<open>finished\<close> is to be set by the stop path, that is by the internal
  stop callback, called when the stop event fires or when \<open>stop()\<close> is called.
  \<open>stop()\<close> does not get there: it calls \<open>fire\<close>, the alias of line 65, which is
  the function of the base class and raises \<open>x_unimplemented\<close>, whatever the handler
  and the kernel. A handler parked in its wait with \<open>finished = 0\<close> is, after
  \<open>stop()\<close>, the same handler on the same kernel, and taken up again it parks again
  with \<open>finished = 0\<close>; had the stop event been set instead, it would have ended with
  \<open>finished = 1\<close>.
\<close>

theorem EventHandler_stop_raises:
  "EventHandler_stop k h = ((k, h), Raises x_unimplemented)
   \<and> (case EventHandler_run (Suc n) world (EventHandler_init action_event STOP_EVENT) of
        (k1, h1, r1) \<Rightarrow>
          r1 = Some Blocks \<and> finished h1 = Some 0
          \<and> (case EventHandler_stop k1 h1 of
                ((k2, h2), r2) \<Rightarrow>
                  r2 = Raises x_unimplemented
                  \<and> finished (fst (snd (run_loop (Suc m) k2 h2))) = Some 0
                  \<and> snd (snd (run_loop (Suc m) k2 h2)) = Some Blocks)
          \<and> (case Win32Event_set k1 STOP_EVENT of
                (k3, r3) \<Rightarrow>
                  r3 = Returns ()
                  \<and> finished (fst (snd (run_loop (Suc (Suc m)) k3 h1))) = Some 1
                  \<and> snd (snd (run_loop (Suc (Suc m)) k3 h1)) = Some (Returns ())))"
  by (simp add: EventHandler_stop_def Event_fire_def Event_set_def
      world_def STOP_EVENT_def action_event_def load_module_def EventHandler_init_def
      EventHandler_run_def run_iter_def WaitForMultipleObjects_def call_def EventHandler__stop_def
      w32 boot_def)

text \<open>
  C8. The named variant's \<open>wait\<close> is to accept the value that stands for no time
  limit, \<open>None\<close> as well as the platform's \<open>INFINITE\<close>. It hands a timeout of 0 on
  as 0, which never blocks, a timeout of 5 seconds as 5000, and \<open>INFINITE\<close>, its
  default, unchanged. \<open>None\<close>, the default of the in-process variant's \<open>wait\<close>,
  which takes it without a \<open>TypeError\<close>, is neither equal to \<open>INFINITE\<close> nor a
  number: on every event and every kernel the multiplication of line 179 raises
  \<open>TypeError\<close> before the platform is asked.
\<close>

theorem Win32Event_wait_rejects_None:
  "Win32Event_wait k e PyNone = (k, Raises TypeError)
   \<and> snd (PythonEvent_wait lib p PyNone) \<noteq> Raises TypeError
   \<and> wait_ms (PyInt 0) = Returns (PyInt 0)
   \<and> snd (Win32Event_wait k e (PyInt 0)) \<noteq> Blocks
   \<and> wait_ms (PyInt 5) = Returns (PyInt 5000)
   \<and> wait_ms (PyInt INFINITE) = Returns (PyInt INFINITE)
   \<and> Win32Event_wait_default (fst (Win32Event_init boot ''e'' 0 0)) (snd (Win32Event_init boot ''e'' 0 0))
       = (fst (Win32Event_init boot ''e'' 0 0), Blocks)"
proof -
  have none: "Win32Event_wait k e PyNone = (k, Raises TypeError)"
    by (simp add: Win32Event_wait_def wait_ms_def py_eq_def py_times_def)
  have sibling: "snd (PythonEvent_wait lib p PyNone) \<noteq> Raises TypeError"
    by (simp add: PythonEvent_wait_def threading_wait_def)
  have probe: "snd (Win32Event_wait k e (PyInt 0)) \<noteq> Blocks"
    by (simp add: Win32Event_wait_def wait_ms_def py_eq_def py_times_def WaitForSingleObject_def
        wait_result_def w32_consts split: option.splits)
  have forever: "Win32Event_wait_default (fst (Win32Event_init boot ''e'' 0 0)) (snd (Win32Event_init boot ''e'' 0 0))
       = (fst (Win32Event_init boot ''e'' 0 0), Blocks)"
    by (simp add: Win32Event_wait_default_def w32 boot_def)
  show ?thesis
    using none sibling probe forever
    by (simp add: wait_ms_def py_eq_def py_times_def INFINITE_def)
qed

text \<open>
  C9, as stated, fails: on a named event that is not signaled and that the platform
  reports abandoned, \<open>pulse()\<close> followed at once by \<open>is_set()\<close> raises
  \<open>x_event_abandoned\<close>.
\<close>

theorem pulse_then_is_set_abandoned:
  "snd (Win32Event_is_set
          (fst (Win32Event_pulse
                 \<lparr>objects = [''e'' \<mapsto> \<lparr>signaled = False, manual = False, abandoned = True\<rparr>],
                  handles = [''e'']\<rparr>
                 \<lparr>Win32Event.name = ''e'', event = 0\<rparr>))
          \<lparr>Win32Event.name = ''e'', event = 0\<rparr>) = Raises x_event_abandoned"
  by (simp add: w32)

text \<open>
  C9, amended. \<open>pulse()\<close> followed at once by \<open>is_set()\<close> answers false: in the
  in-process variant on every event, in the named variant on every open handle whose
  object the platform does not report abandoned (whether or not the event was signaled
  before); on an object reported abandoned \<open>is_set()\<close> raises \<open>x_event_abandoned\<close>.
\<close>

theorem pulse_then_is_set:
  "snd (PythonEvent_is_set (fst (PythonEvent_pulse p))) = Returns False
   \<and> (obj_of k (Win32Event.event e) = Some ob
        \<longrightarrow> snd (Win32Event_is_set (fst (Win32Event_pulse k e)) e)
              = (if abandoned ob then Raises x_event_abandoned else Returns 0))"
proof -
  have py: "snd (PythonEvent_is_set (fst (PythonEvent_pulse p))) = Returns False"
    by (simp add: PythonEvent_is_set_def PythonEvent_pulse_def)
  have win: "snd (Win32Event_is_set (fst (Win32Event_pulse k e)) e)
      = (if abandoned ob then Raises x_event_abandoned else Returns 0)"
    if ob: "obj_of k (Win32Event.event e) = Some ob"
  proof -
    let ?h = "Win32Event.event e"
    let ?k = "put_obj k ?h (ob\<lparr>signaled := False\<rparr>)"
    have "fst (Win32Event_pulse k e) = ?k"
      using ob by (simp add: Win32Event_pulse_def PulseEvent_def)
    moreover have "obj_of ?k ?h = Some (ob\<lparr>signaled := False\<rparr>)"
      using ob by (simp add: obj_of_put obj_of_Some_lt)
    ultimately show ?thesis
      by (simp add: is_set_open)
  qed
  from py win show ?thesis by blast
qed

theorem pulse_then_is_set_witness:
  "obj_of (fst (Win32Event_init boot ''e'' 0 0)) (Win32Event.event (snd (Win32Event_init boot ''e'' 0 0)))
     = Some \<lparr>signaled = False, manual = False, abandoned = False\<rparr>
   \<and> snd (Win32Event_is_set
            (fst (Win32Event_pulse (fst (Win32Event_init boot ''e'' 0 0)) (snd (Win32Event_init boot ''e'' 0 0))))
            (snd (Win32Event_init boot ''e'' 0 0))) = Returns 0"
proof -
  have h: "obj_of (fst (Win32Event_init boot ''e'' 0 0)) (Win32Event.event (snd (Win32Event_init boot ''e'' 0 0)))
     = Some \<lparr>signaled = False, manual = False, abandoned = False\<rparr>"
    by (simp add: Win32Event_init_def CreateEvent_def obj_of_def boot_def)
  show ?thesis
    using h pulse_then_is_set [of _ "fst (Win32Event_init boot ''e'' 0 0)" "snd (Win32Event_init boot ''e'' 0 0)"
        "\<lparr>signaled = False, manual = False, abandoned = False\<rparr>"]
    by simp
qed

text \<open>
  C10. The in-process variant does not look at \<open>manual_reset\<close>: two events built with
  the same name and initial state and different \<open>manual_reset\<close> values are the same
  event, so every sequence of set, reset, pulse, is_set and wait shows the same results
  on both; and a wait never clears the flag, which is how a manual-reset event behaves.
\<close>

theorem PythonEvent_manual_reset_ignored:
  "PythonEvent_init nm i m1 = PythonEvent_init nm i m2
   \<and> PythonEvent_run lib (PythonEvent_init nm i m1) cs = PythonEvent_run lib (PythonEvent_init nm i m2) cs
   \<and> PythonEvent.event (fst (PythonEvent_wait lib e t)) = PythonEvent.event e
   \<and> PythonEvent.event (fst (PythonEvent_is_set e)) = PythonEvent.event e"
proof -
  have same: "PythonEvent_init nm i m1 = PythonEvent_init nm i m2"
    by (simp add: PythonEvent_init_def)
  have keep: "fst (PythonEvent_wait lib e t) = e"
    by (simp add: PythonEvent_wait_def split: outcome.splits)
  show ?thesis
    using same keep by (simp add: PythonEvent_is_set_def)
qed

end
